theory Spec2Isabelle
  imports Complex_Main "HOL-Library.Multiset"
begin

section \<open>JavaScript values\<close>

text \<open>
  A JavaScript number is a finite value, \<open>NaN\<close> or one of the two infinities.  Finite
  values are kept as exact rationals: the rounding of IEEE doubles (and the overflow of a
  finite result to an infinity) is outside this model, and \<open>-0\<close> is identified with
  \<open>0\<close>.  A Postgres \<open>NUMERIC\<close> column holds the same values; the driver hands it to
  the program as a decimal string, which converts back to the number it denotes.
\<close>

datatype jsnum = NaN | PInf | NInf | Fin rat

fun jsadd :: "jsnum \<Rightarrow> jsnum \<Rightarrow> jsnum" where
  "jsadd NaN _ = NaN"
| "jsadd _ NaN = NaN"
| "jsadd PInf NInf = NaN"
| "jsadd NInf PInf = NaN"
| "jsadd PInf _ = PInf"
| "jsadd _ PInf = PInf"
| "jsadd NInf _ = NInf"
| "jsadd _ NInf = NInf"
| "jsadd (Fin a) (Fin b) = Fin (a + b)"

definition inf_times :: "bool \<Rightarrow> rat \<Rightarrow> jsnum" where
  "inf_times positive r =
     (if r = 0 then NaN else if (0 < r) = positive then PInf else NInf)"

fun jsmul :: "jsnum \<Rightarrow> jsnum \<Rightarrow> jsnum" where
  "jsmul NaN _ = NaN"
| "jsmul _ NaN = NaN"
| "jsmul PInf PInf = PInf"
| "jsmul PInf NInf = NInf"
| "jsmul NInf PInf = NInf"
| "jsmul NInf NInf = PInf"
| "jsmul PInf (Fin b) = inf_times True b"
| "jsmul NInf (Fin b) = inf_times False b"
| "jsmul (Fin a) PInf = inf_times True a"
| "jsmul (Fin a) NInf = inf_times False a"
| "jsmul (Fin a) (Fin b) = Fin (a * b)"

text \<open>The comparison \<open>a > b\<close>: false as soon as one side is \<open>NaN\<close>.\<close>

fun jsgt :: "jsnum \<Rightarrow> jsnum \<Rightarrow> bool" where
  "jsgt NaN _ = False"
| "jsgt _ NaN = False"
| "jsgt PInf b = (b \<noteq> PInf)"
| "jsgt NInf _ = False"
| "jsgt (Fin a) PInf = False"
| "jsgt (Fin a) NInf = True"
| "jsgt (Fin a) (Fin b) = (b < a)"

text \<open>
  What a request body can hold in a field: the field is absent (\<open>JUndefined\<close>) or is a
  JSON value.  The members of an object play no part in what follows.
\<close>

datatype jsval =
    JUndefined
  | JNull
  | JBool bool
  | JNum jsnum
  | JStr string
  | JObj
  | JArr "jsval list"

text \<open>\<open>!v\<close> is \<open>\<not> truthy v\<close>.\<close>

fun truthy :: "jsval \<Rightarrow> bool" where
  "truthy JUndefined = False"
| "truthy JNull = False"
| "truthy (JBool b) = b"
| "truthy (JNum n) = (n \<noteq> NaN \<and> n \<noteq> Fin 0)"
| "truthy (JStr s) = (s \<noteq> [])"
| "truthy JObj = True"
| "truthy (JArr _) = True"

subsection \<open>parseFloat\<close>

text \<open>
  \<open>parseFloat\<close> converts its argument to a string, skips leading white space and reads
  the longest prefix that is a decimal literal: an optional sign, then \<open>Infinity\<close> or
  digits with an optional fraction and an optional exponent.  With no such prefix the
  result is \<open>NaN\<close>.  Strings are byte strings here, and white space is the ASCII
  white space; the same set stands for \<open>\s\<close> in the regular expression of
  \<open>authMiddleware\<close>.
\<close>

definition is_space :: "char \<Rightarrow> bool" where
  "is_space c = (of_char c \<in> {9, 10, 11, 12, 13, 32 :: nat})"

definition is_digit :: "char \<Rightarrow> bool" where
  "is_digit c = (48 \<le> (of_char c :: nat) \<and> (of_char c :: nat) \<le> 57)"

definition digits_value :: "string \<Rightarrow> nat" where
  "digits_value ds = foldl (\<lambda>acc c. 10 * acc + (of_char c - 48)) 0 ds"

text \<open>The exponent part counts only when \<open>e\<close> is followed by at least one digit.\<close>

definition exponent_of :: "string \<Rightarrow> int" where
  "exponent_of s =
     (case s of
        [] \<Rightarrow> 0
      | c # r \<Rightarrow>
          if c = CHR ''e'' \<or> c = CHR ''E'' then
            (case r of
               [] \<Rightarrow> 0
             | d # r' \<Rightarrow>
                 if d = CHR ''-'' then - int (digits_value (takeWhile is_digit r'))
                 else if d = CHR ''+'' then int (digits_value (takeWhile is_digit r'))
                 else int (digits_value (takeWhile is_digit r)))
          else 0)"

definition scale10 :: "rat \<Rightarrow> int \<Rightarrow> rat" where
  "scale10 m e = (if 0 \<le> e then m * 10 ^ nat e else m / 10 ^ nat (- e))"

definition parse_decimal :: "string \<Rightarrow> jsnum" where
  "parse_decimal s =
     (let ip = takeWhile is_digit s;
          r1 = dropWhile is_digit s;
          fp = (case r1 of [] \<Rightarrow> [] | c # r \<Rightarrow>
                  if c = CHR ''.'' then takeWhile is_digit r else []);
          r2 = (case r1 of [] \<Rightarrow> [] | c # r \<Rightarrow>
                  if c = CHR ''.'' then dropWhile is_digit r else r1)
      in if ip = [] \<and> fp = [] then NaN
         else Fin (scale10 (of_nat (digits_value (ip @ fp)))
                     (exponent_of r2 - int (length fp))))"

definition jsneg :: "jsnum \<Rightarrow> jsnum" where
  "jsneg n = (case n of NaN \<Rightarrow> NaN | PInf \<Rightarrow> NInf | NInf \<Rightarrow> PInf | Fin a \<Rightarrow> Fin (- a))"

definition parse_unsigned :: "string \<Rightarrow> jsnum" where
  "parse_unsigned s = (if take 8 s = ''Infinity'' then PInf else parse_decimal s)"

definition parseFloat_string :: "string \<Rightarrow> jsnum" where
  "parseFloat_string s =
     (case dropWhile is_space s of
        [] \<Rightarrow> NaN
      | c # r \<Rightarrow>
          if c = CHR ''-'' then jsneg (parse_unsigned r)
          else if c = CHR ''+'' then parse_unsigned r
          else parse_unsigned (c # r))"

text \<open>
  A number prints as a literal that reads back as itself.  \<open>true\<close>, \<open>false\<close>,
  \<open>null\<close>, \<open>undefined\<close> and \<open>[object Object]\<close> have no numeric prefix.  An array
  prints its elements separated by commas, so only its first element is read.
\<close>

fun parseFloat :: "jsval \<Rightarrow> jsnum" where
  "parseFloat (JNum n) = n"
| "parseFloat (JStr s) = parseFloat_string s"
| "parseFloat (JArr (x # xs)) = parseFloat x"
| "parseFloat _ = NaN"

section \<open>The store\<close>

text \<open>
  The tables of \<open>initDb\<close>.  A nullable column is an \<open>option\<close>; \<open>SERIAL\<close> keys and
  timestamps are natural numbers.  The columns \<open>loans.user_id\<close>, \<open>loans.status\<close> and
  \<open>loans.taken_at\<close> are nullable in the schema, but every row the program inserts
  gives them a value, so they are kept without \<open>option\<close>.
\<close>

record user_row =
  u_id :: nat
  u_name :: string
  u_email :: string
  u_password :: string
  u_monthly_income :: "jsnum option"
  u_date_of_birth :: "string option"
  u_address :: "string option"
  u_nid_picture :: "string option"
  u_balance :: "jsnum option"
  u_created_at :: nat

record loan_row =
  l_id :: nat
  l_user_id :: nat
  l_amount :: jsnum
  l_status :: string
  l_taken_at :: nat
  l_paid_at :: "nat option"

record card_row =
  c_id :: nat
  c_user_id :: nat
  c_card_number :: string
  c_card_type :: string
  c_expiry :: string
  c_created_at :: nat

record employee_row =
  e_id :: nat
  e_name :: string
  e_role :: string
  e_email :: string

record db =
  users :: "user_row list"
  loans :: "loan_row list"
  cards :: "card_row list"
  employees :: "employee_row list"
  users_id_seq :: nat
  loans_id_seq :: nat

text \<open>The state \<open>initDb\<close> leaves behind on an empty database.\<close>

definition initDb :: db where
  "initDb =
     \<lparr>users = [], loans = [], cards = [],
      employees =
        [\<lparr>e_id = 1, e_name = ''Mr. Rahim Ahmed'', e_role = ''Manager'',
          e_email = ''rahim@efportal.com''\<rparr>,
         \<lparr>e_id = 2, e_name = ''Ms. Jahanara Khatun'', e_role = ''Customer Support'',
          e_email = ''jahanara@efportal.com''\<rparr>,
         \<lparr>e_id = 3, e_name = ''Mr. Shakil Hossain'', e_role = ''Loan Officer'',
          e_email = ''shakil@efportal.com''\<rparr>],
      users_id_seq = 1, loans_id_seq = 1\<rparr>"

subsection \<open>Queries\<close>

text \<open>\<open>SELECT ... FROM users WHERE id=$1\<close> and \<open>... WHERE email=$1\<close>: the matching rows.\<close>

definition users_by_id :: "nat \<Rightarrow> db \<Rightarrow> user_row list" where
  "users_by_id i D = filter (\<lambda>u. u_id u = i) (users D)"

definition users_by_email :: "string \<Rightarrow> db \<Rightarrow> user_row list" where
  "users_by_email e D = filter (\<lambda>u. u_email u = e) (users D)"

text \<open>
  \<open>INSERT INTO users\<close>: the key comes from the sequence, balance and creation time from
  the column defaults.  The statement fails (\<open>None\<close>) on a name or email longer than
  \<open>VARCHAR(255)\<close> allows and on an email that is already there (\<open>UNIQUE\<close>).
\<close>

definition insert_user ::
  "nat \<Rightarrow> string \<Rightarrow> string \<Rightarrow> string \<Rightarrow> jsnum option \<Rightarrow> string option \<Rightarrow>
   string option \<Rightarrow> string option \<Rightarrow> db \<Rightarrow> db option" where
  "insert_user t name email password income dob address nid D =
     (if 255 < length name \<or> 255 < length email \<or> users_by_email email D \<noteq> [] then None
      else Some (D\<lparr>users := users D @
                   [\<lparr>u_id = users_id_seq D, u_name = name, u_email = email,
                     u_password = password, u_monthly_income = income,
                     u_date_of_birth = dob, u_address = address, u_nid_picture = nid,
                     u_balance = Some (Fin 50000), u_created_at = t\<rparr>],
                 users_id_seq := Suc (users_id_seq D)\<rparr>))"

text \<open>
  \<open>INSERT INTO loans (user_id, amount, status)\<close>: fails when \<open>user_id\<close> references no
  user; \<open>taken_at\<close> is the current time and \<open>paid_at\<close> is null.  The amount
  column takes every number, \<open>NaN\<close> included (and the infinities, as Postgres does
  from version 14 on).
\<close>

definition insert_loan :: "nat \<Rightarrow> nat \<Rightarrow> jsnum \<Rightarrow> string \<Rightarrow> db \<Rightarrow> db option" where
  "insert_loan t uid amt st D =
     (if users_by_id uid D = [] then None
      else Some (D\<lparr>loans := loans D @
                   [\<lparr>l_id = loans_id_seq D, l_user_id = uid, l_amount = amt, l_status = st,
                     l_taken_at = t, l_paid_at = None\<rparr>],
                 loans_id_seq := Suc (loans_id_seq D)\<rparr>))"

text \<open>
  \<open>UPDATE users SET balance=$1 WHERE id=$2\<close> and
  \<open>UPDATE users SET password=$1 WHERE id=$2\<close>.
\<close>

definition update_balance :: "jsnum \<Rightarrow> nat \<Rightarrow> db \<Rightarrow> db" where
  "update_balance b i D =
     D\<lparr>users := map (\<lambda>u. if u_id u = i then u\<lparr>u_balance := Some b\<rparr> else u) (users D)\<rparr>"

definition update_password :: "string \<Rightarrow> nat \<Rightarrow> db \<Rightarrow> db" where
  "update_password h i D =
     D\<lparr>users := map (\<lambda>u. if u_id u = i then u\<lparr>u_password := h\<rparr> else u) (users D)\<rparr>"

text \<open>\<open>SELECT * FROM loans WHERE user_id=$1 ORDER BY taken_at DESC\<close>.\<close>

definition loans_by_user_desc :: "nat \<Rightarrow> db \<Rightarrow> loan_row list" where
  "loans_by_user_desc i D = rev (sort_key l_taken_at (filter (\<lambda>l. l_user_id l = i) (loans D)))"

definition cards_by_user :: "nat \<Rightarrow> db \<Rightarrow> card_row list" where
  "cards_by_user i D = filter (\<lambda>c. c_user_id c = i) (cards D)"

definition employees_by_id :: "db \<Rightarrow> employee_row list" where
  "employees_by_id D = sort_key e_id (employees D)"

section \<open>Libraries and the request environment\<close>

text \<open>
  The libraries and the database's input conversions are parameters of the model.
  \<^item> \<open>jwt_verify t token\<close> is \<open>jwt.verify(token, JWT_SECRET)\<close> at time \<open>t\<close>: the decoded
    payload, or \<open>None\<close> where the library throws.
  \<^item> \<open>jwt_sign t payload\<close> is \<open>jwt.sign(payload, JWT_SECRET, {expiresIn: '24h'})\<close>.
  \<^item> \<open>bcrypt_hash s p\<close> is \<open>bcrypt.hash(p, 10)\<close> when the library draws the salt \<open>s\<close>;
    \<open>bcrypt_compare p h\<close> is \<open>bcrypt.compare(p, h)\<close>.
  \<^item> \<open>numeric_in\<close> and \<open>date_in\<close> are what Postgres reads from a query parameter bound
    to a \<open>NUMERIC\<close> or \<open>DATE\<close> column, \<open>None\<close> when it rejects the value.
\<close>

record decoded =
  d_id :: nat
  d_email :: string

record lib =
  jwt_verify :: "nat \<Rightarrow> string \<Rightarrow> decoded option"
  jwt_sign :: "nat \<Rightarrow> decoded \<Rightarrow> string"
  bcrypt_hash :: "string \<Rightarrow> string \<Rightarrow> string"
  bcrypt_compare :: "string \<Rightarrow> string \<Rightarrow> bool"
  numeric_in :: "jsval \<Rightarrow> jsnum option"
  date_in :: "string \<Rightarrow> string option"

text \<open>
  What one request finds around it: the clock, the salt the hashing library draws, and
  which of the request's calls of \<open>db.query\<close> throw (numbered from 0 in the order they
  are issued); a thrown query leaves the store as it was.
\<close>

record env =
  now :: nat
  salt :: string
  query_fails :: "nat \<Rightarrow> bool"

section \<open>Responses\<close>

text \<open>The view of the user that \<open>authMiddleware\<close> puts in \<open>req.user\<close>.\<close>

record req_user =
  r_id :: nat
  r_name :: string
  r_email :: string
  r_monthly_income :: "jsnum option"
  r_balance :: "jsnum option"
  r_address :: "string option"
  r_nid_picture :: "string option"

text \<open>\<open>safeUser\<close> of the signin route.\<close>

record safe_user =
  s_id :: nat
  s_name :: string
  s_email :: string
  s_monthly_income :: "jsnum option"
  s_balance :: "jsnum option"
  s_nid_picture :: "string option"

text \<open>
  The JSON bodies the routes send.  \<open>Message ok m\<close> is \<open>{success: ok, message: m}\<close>;
  \<open>MaximumLoan c\<close> is the failure whose message is the template
  \<open>Maximum loan based on income is ${maxLoan}\<close> with \<open>maxLoan = c\<close>; \<open>LoanApproved b\<close>
  is \<open>{success: true, message: 'Loan approved', newBalance: b}\<close>.  A response is a
  status code and a body.
\<close>

datatype body =
    Message bool string
  | MaximumLoan jsnum
  | LoanApproved jsnum
  | LoginSuccessful safe_user string
  | UserInfo req_user
  | LoanList "loan_row list"
  | CardList "card_row list"
  | EmployeeList "employee_row list"

type_synonym response = "nat \<times> body"

fun success :: "body \<Rightarrow> bool" where
  "success (Message ok _) = ok"
| "success (MaximumLoan _) = False"
| "success _ = True"

definition server_error :: response where
  "server_error = (500, Message False ''Server error'')"

section \<open>Authentication\<close>

definition verifyJwt :: "lib \<Rightarrow> env \<Rightarrow> string \<Rightarrow> decoded option" where
  "verifyJwt L E token = jwt_verify L (now E) token"

text \<open>
  \<open>auth.replace(/^Bearer\s+/, '')\<close>: a leading \<open>Bearer\<close> followed by at least one
  white-space character is removed together with all the white space after it.
\<close>

definition strip_bearer :: "string \<Rightarrow> string" where
  "strip_bearer auth =
     (case drop 6 auth of
        [] \<Rightarrow> auth
      | c # r \<Rightarrow> if take 6 auth = ''Bearer'' \<and> is_space c then dropWhile is_space r else auth)"

definition projection :: "user_row \<Rightarrow> req_user" where
  "projection u =
     \<lparr>r_id = u_id u, r_name = u_name u, r_email = u_email u,
      r_monthly_income = u_monthly_income u, r_balance = u_balance u,
      r_address = u_address u, r_nid_picture = u_nid_picture u\<rparr>"

text \<open>
  \<open>authMiddleware\<close> answers itself (\<open>Inl\<close>) or calls \<open>next()\<close> with \<open>req.user\<close> set
  (\<open>Inr\<close>).  The header is \<open>None\<close> when the request has none.
\<close>

definition authMiddleware :: "lib \<Rightarrow> env \<Rightarrow> string option \<Rightarrow> db \<Rightarrow> response + req_user" where
  "authMiddleware L E authorization D =
     (case authorization of
        None \<Rightarrow> Inl (401, Message False ''Authorization header missing'')
      | Some auth \<Rightarrow>
          if auth = [] then Inl (401, Message False ''Authorization header missing'')
          else
            (case verifyJwt L E (strip_bearer auth) of
               None \<Rightarrow> Inl (401, Message False ''Invalid or expired token'')
             | Some dec \<Rightarrow>
                 if query_fails E 0 then Inl server_error
                 else
                   (case users_by_id (d_id dec) D of
                      [] \<Rightarrow> Inl (401, Message False ''User not found'')
                    | row # _ \<Rightarrow> Inr (projection row))))"

section \<open>Routes\<close>

text \<open>\<open>x || null\<close> on a string field: absent and empty both give null.\<close>

definition or_null :: "string option \<Rightarrow> string option" where
  "or_null x = (case x of None \<Rightarrow> None | Some s \<Rightarrow> if s = [] then None else Some s)"

text \<open>
  The parameters \<open>income || null\<close> and \<open>dob || null\<close> as the database reads them: the
  outer \<open>None\<close> is a rejected value, which makes the query throw.
\<close>

definition numeric_param :: "lib \<Rightarrow> jsval \<Rightarrow> jsnum option option" where
  "numeric_param L v = (if truthy v then map_option Some (numeric_in L v) else Some None)"

definition date_param :: "lib \<Rightarrow> string option \<Rightarrow> string option option" where
  "date_param L x =
     (case or_null x of None \<Rightarrow> Some None | Some s \<Rightarrow> map_option Some (date_in L s))"

text \<open>
  \<open>POST /api/signup\<close> and \<open>POST /api/signup-with-file\<close>.  The text fields of the body
  are absent or strings; \<open>income\<close> is any value.  \<open>file\<close> is the name under which the
  upload was stored, if there was one.
\<close>

definition signup ::
  "lib \<Rightarrow> env \<Rightarrow> string option \<Rightarrow> string option \<Rightarrow> string option \<Rightarrow> jsval \<Rightarrow>
   string option \<Rightarrow> string option \<Rightarrow> db \<Rightarrow> response \<times> db" where
  "signup L E name email password income dob address D =
     (case (or_null name, or_null email, or_null password) of
        (Some n, Some e, Some p) \<Rightarrow>
          if query_fails E 0 then (server_error, D)
          else if users_by_email e D \<noteq> [] then
            ((400, Message False ''Email already registered''), D)
          else
            (let hashed = bcrypt_hash L (salt E) p in
             if query_fails E 1 then (server_error, D)
             else
               (case (numeric_param L income, date_param L dob) of
                  (Some i, Some d) \<Rightarrow>
                    (case insert_user (now E) n e hashed i d (or_null address) None D of
                       None \<Rightarrow> (server_error, D)
                     | Some D' \<Rightarrow> ((201, Message True ''Account created successfully''), D'))
                | _ \<Rightarrow> (server_error, D)))
      | _ \<Rightarrow> ((400, Message False ''Missing required fields''), D))"

definition signup_with_file ::
  "lib \<Rightarrow> env \<Rightarrow> string option \<Rightarrow> string option \<Rightarrow> string option \<Rightarrow> jsval \<Rightarrow>
   string option \<Rightarrow> string option \<Rightarrow> string option \<Rightarrow> db \<Rightarrow> response \<times> db" where
  "signup_with_file L E name email password income dob address file D =
     (case (or_null name, or_null email, or_null password) of
        (Some n, Some e, Some p) \<Rightarrow>
          if query_fails E 0 then (server_error, D)
          else if users_by_email e D \<noteq> [] then
            ((400, Message False ''Email already registered''), D)
          else
            (let hashed = bcrypt_hash L (salt E) p;
                 nidPath = map_option (\<lambda>f. ''/uploads/'' @ f) file in
             if query_fails E 1 then (server_error, D)
             else
               (case (numeric_param L income, date_param L dob) of
                  (Some i, Some d) \<Rightarrow>
                    (case insert_user (now E) n e hashed i d (or_null address) nidPath D of
                       None \<Rightarrow> (server_error, D)
                     | Some D' \<Rightarrow> ((201, Message True ''Account created successfully''), D'))
                | _ \<Rightarrow> (server_error, D)))
      | _ \<Rightarrow> ((400, Message False ''Missing required fields''), D))"

text \<open>\<open>POST /api/signin\<close>; a response sent without \<open>res.status\<close> has status 200.\<close>

definition signin ::
  "lib \<Rightarrow> env \<Rightarrow> string option \<Rightarrow> string option \<Rightarrow> db \<Rightarrow> response \<times> db" where
  "signin L E email password D =
     (case (or_null email, or_null password) of
        (Some e, Some p) \<Rightarrow>
          if query_fails E 0 then (server_error, D)
          else
            (case users_by_email e D of
               [] \<Rightarrow> ((401, Message False ''Invalid email or password''), D)
             | user # _ \<Rightarrow>
                 if \<not> bcrypt_compare L p (u_password user) then
                   ((401, Message False ''Invalid email or password''), D)
                 else
                   (let token = jwt_sign L (now E) \<lparr>d_id = u_id user, d_email = u_email user\<rparr>;
                        safeUser = \<lparr>s_id = u_id user, s_name = u_name user,
                                    s_email = u_email user,
                                    s_monthly_income = u_monthly_income user,
                                    s_balance = u_balance user,
                                    s_nid_picture = u_nid_picture user\<rparr>
                    in ((200, LoginSuccessful safeUser token), D)))
      | _ \<Rightarrow> ((400, Message False ''Missing credentials''), D))"

text \<open>\<open>GET /api/user\<close>, behind \<open>authMiddleware\<close>.\<close>

definition get_user :: "req_user \<Rightarrow> db \<Rightarrow> response \<times> db" where
  "get_user user D = ((200, UserInfo user), D)"

text \<open>
  \<open>POST /api/user/take-loan\<close>, behind \<open>authMiddleware\<close>.  \<open>maxLoan\<close> is
  \<open>(user.monthly_income || 0) * 3\<close>: a non-null \<open>NUMERIC\<close> arrives as a non-empty
  string, which is truthy, so only null gives 0.  Reading \<open>ur.rows[0]\<close> when no row came
  back gives \<open>undefined\<close>, and the property access on it throws into the \<open>catch\<close>.
\<close>

definition maxLoan :: "user_row \<Rightarrow> jsnum" where
  "maxLoan user = jsmul (case u_monthly_income user of None \<Rightarrow> Fin 0 | Some i \<Rightarrow> i) (Fin 3)"

text \<open>\<open>parseFloat(user.balance || 0)\<close>.\<close>

definition balance_number :: "user_row \<Rightarrow> jsnum" where
  "balance_number user = (case u_balance user of None \<Rightarrow> Fin 0 | Some b \<Rightarrow> b)"

definition take_loan :: "env \<Rightarrow> req_user \<Rightarrow> jsval \<Rightarrow> db \<Rightarrow> response \<times> db" where
  "take_loan E req_user amount D =
     (if \<not> truthy amount then ((400, Message False ''Missing amount''), D)
      else if query_fails E 0 then (server_error, D)
      else
        (case users_by_id (r_id req_user) D of
           [] \<Rightarrow> (server_error, D)
         | user # _ \<Rightarrow>
             (let amt = parseFloat amount in
              if jsgt amt (maxLoan user) then ((400, MaximumLoan (maxLoan user)), D)
              else if query_fails E 1 then (server_error, D)
              else
                (case insert_loan (now E) (r_id req_user) amt ''active'' D of
                   None \<Rightarrow> (server_error, D)
                 | Some D1 \<Rightarrow>
                     (let newBalance = jsadd (balance_number user) amt in
                      if query_fails E 2 then (server_error, D1)
                      else ((201, LoanApproved newBalance),
                            update_balance newBalance (r_id req_user) D1))))))"

text \<open>\<open>GET /api/user/loans\<close>, behind \<open>authMiddleware\<close>.\<close>

definition loan_history :: "env \<Rightarrow> req_user \<Rightarrow> db \<Rightarrow> response \<times> db" where
  "loan_history E req_user D =
     (if query_fails E 0 then (server_error, D)
      else ((200, LoanList (loans_by_user_desc (r_id req_user) D)), D))"

text \<open>\<open>POST /api/user/change-password\<close>, behind \<open>authMiddleware\<close>.\<close>

definition change_password ::
  "lib \<Rightarrow> env \<Rightarrow> req_user \<Rightarrow> string option \<Rightarrow> string option \<Rightarrow> db \<Rightarrow> response \<times> db" where
  "change_password L E req_user oldPassword newPassword D =
     (case (or_null oldPassword, or_null newPassword) of
        (Some old, Some new) \<Rightarrow>
          if query_fails E 0 then (server_error, D)
          else
            (case users_by_id (r_id req_user) D of
               [] \<Rightarrow> (server_error, D)
             | row # _ \<Rightarrow>
                 if \<not> bcrypt_compare L old (u_password row) then
                   ((401, Message False ''Incorrect old password''), D)
                 else
                   (let hashed = bcrypt_hash L (salt E) new in
                    if query_fails E 1 then (server_error, D)
                    else ((200, Message True ''Password changed successfully''),
                          update_password hashed (r_id req_user) D)))
      | _ \<Rightarrow> ((400, Message False ''Missing passwords''), D))"

text \<open>\<open>GET /api/cards\<close>, behind \<open>authMiddleware\<close>, and \<open>GET /api/employees\<close>.\<close>

definition get_cards :: "env \<Rightarrow> req_user \<Rightarrow> db \<Rightarrow> response \<times> db" where
  "get_cards E req_user D =
     (if query_fails E 0 then (server_error, D)
      else ((200, CardList (cards_by_user (r_id req_user) D)), D))"

definition get_employees :: "env \<Rightarrow> db \<Rightarrow> response \<times> db" where
  "get_employees E D =
     (if query_fails E 0 then (server_error, D)
      else ((200, EmployeeList (employees_by_id D)), D))"

subsection \<open>The application\<close>

text \<open>
  A route behind \<open>authMiddleware\<close>: the handler runs only after \<open>next()\<close>, and its
  queries come after the one the middleware made.
\<close>

definition after_auth :: "env \<Rightarrow> env" where
  "after_auth E = E\<lparr>query_fails := \<lambda>k. query_fails E (Suc k)\<rparr>"

definition protected ::
  "lib \<Rightarrow> env \<Rightarrow> string option \<Rightarrow> (env \<Rightarrow> req_user \<Rightarrow> db \<Rightarrow> response \<times> db) \<Rightarrow> db \<Rightarrow>
   response \<times> db" where
  "protected L E authorization handler D =
     (case authMiddleware L E authorization D of
        Inl r \<Rightarrow> (r, D)
      | Inr user \<Rightarrow> handler (after_auth E) user D)"

text \<open>
  The requests of the API; the first argument of a protected one is its
  \<open>Authorization\<close> header.
\<close>

datatype request =
    PostSignup "string option" "string option" "string option" jsval
      "string option" "string option"
  | PostSignupWithFile "string option" "string option" "string option" jsval
      "string option" "string option" "string option"
  | PostSignin "string option" "string option"
  | GetUser "string option"
  | PostTakeLoan "string option" jsval
  | GetLoans "string option"
  | PostChangePassword "string option" "string option" "string option"
  | GetCards "string option"
  | GetEmployees

fun handle :: "lib \<Rightarrow> env \<Rightarrow> request \<Rightarrow> db \<Rightarrow> response \<times> db" where
  "handle L E (PostSignup name email password income dob address) D =
     signup L E name email password income dob address D"
| "handle L E (PostSignupWithFile name email password income dob address file) D =
     signup_with_file L E name email password income dob address file D"
| "handle L E (PostSignin email password) D = signin L E email password D"
| "handle L E (GetUser a) D = protected L E a (\<lambda>E'. get_user) D"
| "handle L E (PostTakeLoan a amount) D =
     protected L E a (\<lambda>E' user. take_loan E' user amount) D"
| "handle L E (GetLoans a) D = protected L E a loan_history D"
| "handle L E (PostChangePassword a oldPassword newPassword) D =
     protected L E a (\<lambda>E' user. change_password L E' user oldPassword newPassword) D"
| "handle L E (GetCards a) D = protected L E a get_cards D"
| "handle L E GetEmployees D = get_employees E D"

text \<open>The store after a sequence of requests, each in its own environment.\<close>

fun run :: "lib \<Rightarrow> (env \<times> request) list \<Rightarrow> db \<Rightarrow> db" where
  "run L [] D = D"
| "run L ((E, r) # rs) D = run L rs (snd (handle L E r D))"

section \<open>Properties of the store and of numbers\<close>

text \<open>\<open>b >= 0\<close> on numbers: false for \<open>NaN\<close>.\<close>

definition nonneg :: "jsnum \<Rightarrow> bool" where
  "nonneg b = (case b of Fin x \<Rightarrow> 0 \<le> x | PInf \<Rightarrow> True | _ \<Rightarrow> False)"


text \<open>Every balance in the store is non-negative (a null balance reads as 0).\<close>

definition balances_nonneg :: "db \<Rightarrow> bool" where
  "balances_nonneg D = list_all (\<lambda>u. nonneg (balance_number u)) (users D)"

text \<open>
  A request that is not a loan request, or a loan request whose amount parses to a
  non-negative number.
\<close>

definition amount_nonneg :: "env \<times> request \<Rightarrow> bool" where
  "amount_nonneg er =
     (case snd er of PostTakeLoan a amount \<Rightarrow> nonneg (parseFloat amount) | _ \<Rightarrow> True)"

text \<open>The loan requests.\<close>

definition is_take_loan :: "request \<Rightarrow> bool" where
  "is_take_loan r = (case r of PostTakeLoan a amount \<Rightarrow> True | _ \<Rightarrow> False)"

text \<open>
  The rows of \<open>D\<close> are, in order, the first rows of \<open>D'\<close> and have kept their
  balances.
\<close>

definition kept_balances :: "db \<Rightarrow> db \<Rightarrow> bool" where
  "kept_balances D D' =
     (take (length (users D)) (map u_balance (users D')) = map u_balance (users D))"

text \<open>A string without white space, as every compact JWT is.\<close>

definition no_space :: "string \<Rightarrow> bool" where
  "no_space t = list_all (\<lambda>c. \<not> is_space c) t"

section \<open>Example data\<close>

text \<open>
  A concrete instance of the libraries, used to run the model on examples: one token
  that verifies, a hash that keeps salt and password apart with a \<open>$\<close>, and input
  conversions that accept numbers and any date text.
\<close>

definition example_lib :: lib where
  "example_lib =
     \<lparr>jwt_verify = (\<lambda>t token. if token = ''a.b.c'' then
                        Some \<lparr>d_id = 1, d_email = ''alice@example.com''\<rparr> else None),
      jwt_sign = (\<lambda>t d. ''a.b.c''),
      bcrypt_hash = (\<lambda>s p. s @ ''$'' @ p),
      bcrypt_compare = (\<lambda>p h. drop 1 (dropWhile (\<lambda>c. c \<noteq> CHR ''$'') h) = p),
      numeric_in = (\<lambda>v. case v of JNum n \<Rightarrow> Some n | _ \<Rightarrow> None),
      date_in = Some\<rparr>"

definition example_env :: env where
  "example_env = \<lparr>now = 7, salt = ''s1'', query_fails = (\<lambda>k. False)\<rparr>"

text \<open>An environment in which the third query of the request throws.\<close>

definition example_env_update_fails :: env where
  "example_env_update_fails = \<lparr>now = 7, salt = ''s1'', query_fails = (\<lambda>k. k = 2)\<rparr>"

definition alice :: user_row where
  "alice =
     \<lparr>u_id = 1, u_name = ''Alice'', u_email = ''alice@example.com'',
      u_password = ''s0$secret'', u_monthly_income = Some (Fin 10000),
      u_date_of_birth = None, u_address = None, u_nid_picture = None,
      u_balance = Some (Fin 50000), u_created_at = 1\<rparr>"

definition bob :: user_row where
  "bob =
     \<lparr>u_id = 2, u_name = ''Bob'', u_email = ''bob@example.com'',
      u_password = ''s0$hunter2'', u_monthly_income = None,
      u_date_of_birth = None, u_address = None, u_nid_picture = None,
      u_balance = Some (Fin 50000), u_created_at = 2\<rparr>"

definition example_loans :: "loan_row list" where
  "example_loans =
     [\<lparr>l_id = 1, l_user_id = 1, l_amount = Fin 100, l_status = ''active'', l_taken_at = 3,
       l_paid_at = None\<rparr>,
      \<lparr>l_id = 2, l_user_id = 2, l_amount = Fin 0, l_status = ''active'', l_taken_at = 4,
       l_paid_at = None\<rparr>,
      \<lparr>l_id = 3, l_user_id = 1, l_amount = Fin 200, l_status = ''active'', l_taken_at = 5,
       l_paid_at = None\<rparr>]"

definition example_db :: db where
  "example_db =
     \<lparr>users = [alice, bob], loans = example_loans, cards = [], employees = [],
      users_id_seq = 3, loans_id_seq = 4\<rparr>"

text \<open>A registration followed by a loan request of the new user.\<close>

definition example_requests :: "jsval \<Rightarrow> (env \<times> request) list" where
  "example_requests amount =
     [(example_env,
       PostSignup (Some ''Alice'') (Some ''alice@example.com'') (Some ''secret'')
         (JNum (Fin 10000)) None None),
      (example_env, PostTakeLoan (Some ''Bearer a.b.c'') amount)]"

section \<open>Auxiliary facts\<close>

lemmas example_defs = example_lib_def example_env_def alice_def bob_def example_db_def
  example_loans_def

lemmas parse_defs = parseFloat_string_def parse_unsigned_def parse_decimal_def is_space_def
  is_digit_def digits_value_def exponent_of_def scale10_def jsneg_def


lemma insert_loan_Some:
  "users_by_id i D = u # us \<Longrightarrow>
   insert_loan t i a st D =
     Some (D\<lparr>loans := loans D @
                [\<lparr>l_id = loans_id_seq D, l_user_id = i, l_amount = a, l_status = st,
                  l_taken_at = t, l_paid_at = None\<rparr>],
              loans_id_seq := Suc (loans_id_seq D)\<rparr>)"
  by (simp add: insert_loan_def)



lemma example_alice_row: "users_by_id (r_id (projection alice)) example_db = [alice]"
  by (simp add: example_defs users_by_id_def projection_def)


lemma example_no_failure: "\<not> query_fails example_env k"
  by (simp add: example_env_def)

lemma parse_30000: "parseFloat_string ''30000'' = Fin 30000"
  by (simp add: parse_defs)


lemma maxLoan_alice: "maxLoan alice = Fin 30000"
  by (simp add: maxLoan_def alice_def)

section \<open>The eligibility ceiling\<close>




section \<open>A successful loan\<close>



lemma take_loan_201:
  assumes "take_loan E ru amount D = ((201, b), D')"
  shows "\<exists>user rest. users_by_id (r_id ru) D = user # rest \<and>
           b = LoanApproved (jsadd (balance_number user) (parseFloat amount)) \<and>
           D' = update_balance (jsadd (balance_number user) (parseFloat amount)) (r_id ru)
                  (D\<lparr>loans := loans D @
                      [\<lparr>l_id = loans_id_seq D, l_user_id = r_id ru,
                        l_amount = parseFloat amount, l_status = ''active'',
                        l_taken_at = now E, l_paid_at = None\<rparr>],
                    loans_id_seq := Suc (loans_id_seq D)\<rparr>)"
  using assms
  by (auto simp: take_loan_def server_error_def Let_def insert_loan_Some
      split: if_splits list.splits option.splits)





section \<open>Validation of the amount\<close>

text \<open>
  Claim C3, as the code has it.  The only validation of the amount is \<open>!amount\<close>: the
  request is answered 400 \<open>Missing amount\<close>, with the store untouched, exactly when the
  amount is falsy, that is absent, \<open>null\<close>, \<open>false\<close>, the number 0, \<open>NaN\<close> or the
  empty string.
\<close>

theorem take_loan_missing_amount:
  "(\<not> truthy amount \<longrightarrow>
      take_loan E ru amount D = ((400, Message False ''Missing amount''), D)) \<and>
   (fst (take_loan E ru amount D) = (400, Message False ''Missing amount'')) = (\<not> truthy amount) \<and>
   (\<not> truthy amount) =
     (amount \<in> {JUndefined, JNull, JBool False, JNum NaN, JNum (Fin 0), JStr ''''})"
proof -
  have "(\<not> truthy amount) =
     (amount \<in> {JUndefined, JNull, JBool False, JNum NaN, JNum (Fin 0), JStr ''''})"
    by (cases amount) auto
  moreover have "truthy amount \<Longrightarrow>
      fst (take_loan E ru amount D) \<noteq> (400, Message False ''Missing amount'')"
    by (auto simp: take_loan_def server_error_def Let_def split: list.splits option.splits)
  moreover have "\<not> truthy amount \<Longrightarrow>
      take_loan E ru amount D = ((400, Message False ''Missing amount''), D)"
    by (simp add: take_loan_def)
  ultimately show ?thesis by auto
qed


text \<open>
  The theorem at work on a request without amount.
\<close>

theorem take_loan_missing_amount_witness:
  "\<not> truthy JUndefined \<and>
   take_loan example_env (projection alice) JUndefined example_db =
     ((400, Message False ''Missing amount''), example_db)"
  using take_loan_missing_amount [of JUndefined example_env "projection alice" example_db]
  by simp

lemma parse_abc: "parseFloat_string ''abc'' = NaN"
  by (simp add: parse_defs)

lemma parse_minus_5: "parseFloat_string ''-5'' = Fin (- 5)"
  by (simp add: parse_defs)

text \<open>
  Claim C3 as it is written fails: neither a negative amount nor a non-numeric one is
  rejected.  The amount \<open>-5\<close> is approved and lowers Alice's balance to 49995; the
  amount \<open>abc\<close> parses to \<open>NaN\<close>, passes the comparison with the ceiling and is
  approved, leaving a loan and a balance of \<open>NaN\<close>.
\<close>

theorem take_loan_unvalidated_amount_counterexample:
  "take_loan example_env (projection alice) (JStr ''-5'') example_db =
     ((201, LoanApproved (Fin 49995)),
      example_db\<lparr>users := [alice\<lparr>u_balance := Some (Fin 49995)\<rparr>, bob],
        loans := example_loans @
          [\<lparr>l_id = 4, l_user_id = 1, l_amount = Fin (- 5), l_status = ''active'',
            l_taken_at = 7, l_paid_at = None\<rparr>],
        loans_id_seq := 5\<rparr>) \<and>
   take_loan example_env (projection alice) (JStr ''abc'') example_db =
     ((201, LoanApproved NaN),
      example_db\<lparr>users := [alice\<lparr>u_balance := Some NaN\<rparr>, bob],
        loans := example_loans @
          [\<lparr>l_id = 4, l_user_id = 1, l_amount = NaN, l_status = ''active'',
            l_taken_at = 7, l_paid_at = None\<rparr>],
        loans_id_seq := 5\<rparr>)"
  by (simp add: take_loan_def example_no_failure example_alice_row parse_abc parse_minus_5
      maxLoan_alice insert_loan_Some Let_def)
     (simp add: balance_number_def update_balance_def example_defs projection_def)

section \<open>Reporting of partial commits\<close>

lemma take_loan_not_201:
  assumes "take_loan E ru amount D = ((st, b), D')" and "st \<noteq> 201"
  shows "\<not> success b \<and> (st = 400 \<or> st = 500) \<and>
         (D' = D \<or>
          (st, b) = server_error \<and>
          insert_loan (now E) (r_id ru) (parseFloat amount) ''active'' D = Some D')"
  using assms
  by (auto simp: take_loan_def server_error_def Let_def
      split: if_splits list.splits option.splits)

text \<open>
  Claim C5.  Whatever queries fail, an execution of \<open>take_loan\<close> ends in one of two
  ways.  Either it answers 201, and then the loan row was inserted and the balance
  updated; or it answers 400 or 500 with a failure body, and then the store is unchanged
  or, when the update threw after the insert, holds the new loan row alone and the
  answer is the server error.  Success is never reported with one write missing.
\<close>

theorem take_loan_success_means_both_writes:
  "take_loan E ru amount D = ((st, b), D') \<longrightarrow>
     (st = 201 \<and> success b \<and>
      (\<exists>user rest D1.
         users_by_id (r_id ru) D = user # rest \<and>
         insert_loan (now E) (r_id ru) (parseFloat amount) ''active'' D = Some D1 \<and>
         D' = update_balance (jsadd (balance_number user) (parseFloat amount)) (r_id ru) D1))
     \<or>
     (\<not> success b \<and> (st = 400 \<or> st = 500) \<and>
      (D' = D \<or>
       (st, b) = server_error \<and>
       insert_loan (now E) (r_id ru) (parseFloat amount) ''active'' D = Some D'))"
proof
  assume t: "take_loan E ru amount D = ((st, b), D')"
  show "(st = 201 \<and> success b \<and>
      (\<exists>user rest D1.
         users_by_id (r_id ru) D = user # rest \<and>
         insert_loan (now E) (r_id ru) (parseFloat amount) ''active'' D = Some D1 \<and>
         D' = update_balance (jsadd (balance_number user) (parseFloat amount)) (r_id ru) D1))
     \<or>
     (\<not> success b \<and> (st = 400 \<or> st = 500) \<and>
      (D' = D \<or>
       (st, b) = server_error \<and>
       insert_loan (now E) (r_id ru) (parseFloat amount) ''active'' D = Some D'))"
  proof (cases "st = 201")
    case True
    with t take_loan_201 [of E ru amount D b D'] obtain user rest where
      u: "users_by_id (r_id ru) D = user # rest" and
      b: "b = LoanApproved (jsadd (balance_number user) (parseFloat amount))" and
      D': "D' = update_balance (jsadd (balance_number user) (parseFloat amount)) (r_id ru)
                  (D\<lparr>loans := loans D @
                      [\<lparr>l_id = loans_id_seq D, l_user_id = r_id ru,
                        l_amount = parseFloat amount, l_status = ''active'',
                        l_taken_at = now E, l_paid_at = None\<rparr>],
                    loans_id_seq := Suc (loans_id_seq D)\<rparr>)"
      by blast
    from u have "insert_loan (now E) (r_id ru) (parseFloat amount) ''active'' D =
        Some (D\<lparr>loans := loans D @
                      [\<lparr>l_id = loans_id_seq D, l_user_id = r_id ru,
                        l_amount = parseFloat amount, l_status = ''active'',
                        l_taken_at = now E, l_paid_at = None\<rparr>],
                    loans_id_seq := Suc (loans_id_seq D)\<rparr>)"
      by (rule insert_loan_Some)
    with True u b D' show ?thesis by auto
  next
    case False
    with t take_loan_not_201 [of E ru amount D st b D'] show ?thesis by blast
  qed
qed

lemma example_take_loan_update_fails:
  "take_loan example_env_update_fails (projection alice) (JStr ''30000'') example_db =
     (server_error,
      example_db\<lparr>loans := example_loans @
          [\<lparr>l_id = 4, l_user_id = 1, l_amount = Fin 30000, l_status = ''active'',
            l_taken_at = 7, l_paid_at = None\<rparr>],
        loans_id_seq := 5\<rparr>)"
  by (simp add: take_loan_def example_alice_row parse_30000 maxLoan_alice insert_loan_Some
      Let_def example_env_update_fails_def)
     (simp add: example_defs projection_def)

text \<open>
  The theorem at work when the balance update throws: the loan row stays and the caller
  gets the server error.
\<close>

theorem take_loan_success_means_both_writes_witness:
  "take_loan example_env_update_fails (projection alice) (JStr ''30000'') example_db =
     ((500, Message False ''Server error''),
      example_db\<lparr>loans := example_loans @
          [\<lparr>l_id = 4, l_user_id = 1, l_amount = Fin 30000, l_status = ''active'',
            l_taken_at = 7, l_paid_at = None\<rparr>],
        loans_id_seq := 5\<rparr>) \<and>
   \<not> success (Message False ''Server error'') \<and>
   insert_loan (now example_env_update_fails) (r_id (projection alice))
     (parseFloat (JStr ''30000'')) ''active'' example_db =
     Some (example_db\<lparr>loans := example_loans @
          [\<lparr>l_id = 4, l_user_id = 1, l_amount = Fin 30000, l_status = ''active'',
            l_taken_at = 7, l_paid_at = None\<rparr>],
        loans_id_seq := 5\<rparr>)"
proof -
  let ?D' = "example_db\<lparr>loans := example_loans @
          [\<lparr>l_id = 4, l_user_id = 1, l_amount = Fin 30000, l_status = ''active'',
            l_taken_at = 7, l_paid_at = None\<rparr>],
        loans_id_seq := 5\<rparr>"
  have h: "take_loan example_env_update_fails (projection alice) (JStr ''30000'') example_db =
     ((500, Message False ''Server error''), ?D')"
    using example_take_loan_update_fails by (simp add: server_error_def)
  have n: "?D' \<noteq> example_db"
    by (simp add: example_db_def db.ext_inject db.update_convs)
  from take_loan_success_means_both_writes
    [of example_env_update_fails "projection alice" "JStr ''30000''" example_db
        500 "Message False ''Server error''" ?D'] h n
  have "insert_loan (now example_env_update_fails) (r_id (projection alice))
     (parseFloat (JStr ''30000'')) ''active'' example_db = Some ?D'"
    by simp
  with h show ?thesis by simp
qed

section \<open>The authentication middleware\<close>



lemma strip_bearer_example: "strip_bearer ''Bearer a.b.c'' = ''a.b.c''"
  by (simp add: strip_bearer_def is_space_def)


lemma example_verify:
  "verifyJwt example_lib example_env ''a.b.c'' = Some \<lparr>d_id = 1, d_email = ''alice@example.com''\<rparr>"
  "verifyJwt example_lib example_env ''x.y.z'' = None"
  by (simp_all add: verifyJwt_def example_lib_def)

lemma example_user_1:
  "users_by_id 1 example_db = [alice]" "users_by_id 1 initDb = []"
  "users_by_id (Suc 0) example_db = [alice]" "users_by_id (Suc 0) initDb = []"
  by (simp_all add: users_by_id_def example_defs initDb_def)


subsection \<open>The optional prefix\<close>

lemma strip_bearer_prefixed:
  assumes "t \<noteq> []" and "\<not> is_space (hd t)"
  shows "strip_bearer (''Bearer '' @ t) = t"
  using assms by (cases t) (simp_all add: strip_bearer_def is_space_def)

lemma strip_bearer_bare:
  assumes "no_space t"
  shows "strip_bearer t = t"
proof (cases "drop 6 t")
  case Nil
  then show ?thesis by (simp add: strip_bearer_def)
next
  case (Cons c r)
  then have "c \<in> set (drop 6 t)" by simp
  then have "c \<in> set t" by (rule in_set_dropD)
  with assms have "\<not> is_space c" by (simp add: no_space_def list_all_iff)
  with Cons show ?thesis by (simp add: strip_bearer_def)
qed

lemma authMiddleware_cong:
  assumes "auth \<noteq> []" and "auth' \<noteq> []" and "strip_bearer auth = strip_bearer auth'"
  shows "authMiddleware L E (Some auth) D = authMiddleware L E (Some auth') D"
  using assms by (simp add: authMiddleware_def)

text \<open>
  Claim C10.  A token accepted by the JWT library is a compact serialisation: it is not
  empty and has no white space.  For every such string \<open>t\<close> the middleware treats the
  header \<open>t\<close> exactly as it treats \<open>Bearer t\<close>: the prefix is removed from the
  second and nothing is removed from the first, so the same string is verified and,
  when it is valid, the same user row is resolved.
\<close>

theorem bearer_prefix_optional:
  "t \<noteq> [] \<and> no_space t \<longrightarrow>
     strip_bearer (''Bearer '' @ t) = t \<and> strip_bearer t = t \<and>
     authMiddleware L E (Some (''Bearer '' @ t)) D = authMiddleware L E (Some t) D \<and>
     protected L E (Some (''Bearer '' @ t)) handler D = protected L E (Some t) handler D \<and>
     (verifyJwt L E t = Some dec \<and> \<not> query_fails E 0 \<and>
      users_by_id (d_id dec) D = row # rest \<longrightarrow>
        authMiddleware L E (Some (''Bearer '' @ t)) D = Inr (projection row) \<and>
        authMiddleware L E (Some t) D = Inr (projection row))"
proof
  assume a: "t \<noteq> [] \<and> no_space t"
  then have "t \<noteq> []" and "\<not> is_space (hd t)" by (cases t; simp add: no_space_def)+
  then have p: "strip_bearer (''Bearer '' @ t) = t" by (rule strip_bearer_prefixed)
  from a have b: "strip_bearer t = t" by (simp add: strip_bearer_bare)
  from a p b have e: "authMiddleware L E (Some (''Bearer '' @ t)) D = authMiddleware L E (Some t) D"
    by (intro authMiddleware_cong) simp_all
  from a b have "verifyJwt L E t = Some dec \<and> \<not> query_fails E 0 \<and>
      users_by_id (d_id dec) D = row # rest \<longrightarrow>
        authMiddleware L E (Some t) D = Inr (projection row)"
    by (simp add: authMiddleware_def)
  with p b e show "strip_bearer (''Bearer '' @ t) = t \<and> strip_bearer t = t \<and>
     authMiddleware L E (Some (''Bearer '' @ t)) D = authMiddleware L E (Some t) D \<and>
     protected L E (Some (''Bearer '' @ t)) handler D = protected L E (Some t) handler D \<and>
     (verifyJwt L E t = Some dec \<and> \<not> query_fails E 0 \<and>
      users_by_id (d_id dec) D = row # rest \<longrightarrow>
        authMiddleware L E (Some (''Bearer '' @ t)) D = Inr (projection row) \<and>
        authMiddleware L E (Some t) D = Inr (projection row))"
    by (simp add: protected_def)
qed

text \<open>
  The theorem at work on Alice's token, with and without the prefix.
\<close>

theorem bearer_prefix_optional_witness:
  "''a.b.c'' \<noteq> [] \<and> no_space ''a.b.c'' \<and>
   verifyJwt example_lib example_env ''a.b.c'' =
     Some \<lparr>d_id = 1, d_email = ''alice@example.com''\<rparr> \<and>
   \<not> query_fails example_env 0 \<and> users_by_id 1 example_db = [alice] \<and>
   authMiddleware example_lib example_env (Some ''Bearer a.b.c'') example_db =
     Inr (projection alice) \<and>
   authMiddleware example_lib example_env (Some ''a.b.c'') example_db = Inr (projection alice)"
proof -
  let ?dec = "\<lparr>d_id = 1, d_email = ''alice@example.com''\<rparr>"
  have h: "''a.b.c'' \<noteq> [] \<and> no_space ''a.b.c''"
    by (simp add: no_space_def is_space_def)
  have v: "verifyJwt example_lib example_env ''a.b.c'' = Some ?dec"
    by (rule example_verify)
  have q: "\<not> query_fails example_env 0" by (rule example_no_failure)
  have u: "users_by_id (d_id ?dec) example_db = alice # []" by (simp add: example_user_1)
  from bearer_prefix_optional
    [of "''a.b.c''" example_lib example_env example_db _ ?dec alice "[]"] h v q u
  have "authMiddleware example_lib example_env (Some (''Bearer '' @ ''a.b.c'')) example_db =
      Inr (projection alice) \<and>
    authMiddleware example_lib example_env (Some ''a.b.c'') example_db = Inr (projection alice)"
    by blast
  with h v q show ?thesis by (simp add: example_user_1)
qed

section \<open>The loan history\<close>

lemma mset_loans_by_user_desc:
  "mset (loans_by_user_desc i D) = mset (filter (\<lambda>l. l_user_id l = i) (loans D))"
  by (simp add: loans_by_user_desc_def)

lemma sorted_loans_by_user_desc:
  "sorted_wrt (\<lambda>a b. l_taken_at b \<le> l_taken_at a) (loans_by_user_desc i D)"
proof -
  have "sorted (map l_taken_at (sort_key l_taken_at (filter (\<lambda>l. l_user_id l = i) (loans D))))"
    by (rule sorted_sort_key)
  then have "sorted_wrt (\<lambda>a b. l_taken_at a \<le> l_taken_at b)
      (sort_key l_taken_at (filter (\<lambda>l. l_user_id l = i) (loans D)))"
    by (simp only: sorted_map)
  then show ?thesis
    by (simp only: loans_by_user_desc_def sorted_wrt_rev)
qed

text \<open>
  Claim C9.  When its query goes through, the loan history answers 200 with a list that
  holds exactly the loans of the authenticated user, each as often as the table has it
  and none of another user, in order of decreasing \<open>taken_at\<close>.  (The order among rows
  with the same timestamp is left open by the query; the two properties hold for any
  choice.)
\<close>

theorem loan_history_own_newest_first:
  "\<not> query_fails E 0 \<longrightarrow>
     loan_history E ru D = ((200, LoanList (loans_by_user_desc (r_id ru) D)), D) \<and>
     mset (loans_by_user_desc (r_id ru) D) =
       mset (filter (\<lambda>l. l_user_id l = r_id ru) (loans D)) \<and>
     set (loans_by_user_desc (r_id ru) D) = {l \<in> set (loans D). l_user_id l = r_id ru} \<and>
     sorted_wrt (\<lambda>a b. l_taken_at b \<le> l_taken_at a) (loans_by_user_desc (r_id ru) D)"
proof
  assume "\<not> query_fails E 0"
  then have "loan_history E ru D = ((200, LoanList (loans_by_user_desc (r_id ru) D)), D)"
    by (simp add: loan_history_def)
  moreover have "set (loans_by_user_desc (r_id ru) D) =
      {l \<in> set (loans D). l_user_id l = r_id ru}"
    by (simp add: loans_by_user_desc_def)
  ultimately show "loan_history E ru D = ((200, LoanList (loans_by_user_desc (r_id ru) D)), D) \<and>
     mset (loans_by_user_desc (r_id ru) D) =
       mset (filter (\<lambda>l. l_user_id l = r_id ru) (loans D)) \<and>
     set (loans_by_user_desc (r_id ru) D) = {l \<in> set (loans D). l_user_id l = r_id ru} \<and>
     sorted_wrt (\<lambda>a b. l_taken_at b \<le> l_taken_at a) (loans_by_user_desc (r_id ru) D)"
    using mset_loans_by_user_desc [of "r_id ru" D] sorted_loans_by_user_desc [of "r_id ru" D]
    by simp
qed

lemma example_loans_alice:
  "loans_by_user_desc (r_id (projection alice)) example_db =
     [\<lparr>l_id = 3, l_user_id = 1, l_amount = Fin 200, l_status = ''active'', l_taken_at = 5,
       l_paid_at = None\<rparr>,
      \<lparr>l_id = 1, l_user_id = 1, l_amount = Fin 100, l_status = ''active'', l_taken_at = 3,
       l_paid_at = None\<rparr>]"
  by (simp add: loans_by_user_desc_def example_defs projection_def)

text \<open>
  The theorem at work on Alice's two loans, among which lies one of Bob's.
\<close>

theorem loan_history_own_newest_first_witness:
  "\<not> query_fails example_env 0 \<and>
   loan_history example_env (projection alice) example_db =
     ((200, LoanList
        [\<lparr>l_id = 3, l_user_id = 1, l_amount = Fin 200, l_status = ''active'', l_taken_at = 5,
          l_paid_at = None\<rparr>,
         \<lparr>l_id = 1, l_user_id = 1, l_amount = Fin 100, l_status = ''active'', l_taken_at = 3,
          l_paid_at = None\<rparr>]), example_db)"
proof -
  have q: "\<not> query_fails example_env 0" by (rule example_no_failure)
  from loan_history_own_newest_first [of example_env "projection alice" example_db] q
  have "loan_history example_env (projection alice) example_db =
      ((200, LoanList (loans_by_user_desc (r_id (projection alice)) example_db)), example_db)"
    by blast
  with q show ?thesis by (simp only: example_loans_alice simp_thms)
qed

section \<open>Registration under an existing email\<close>

lemma or_null_Some: "s \<noteq> [] \<Longrightarrow> or_null (Some s) = Some s"
  by (simp add: or_null_def)

lemma signup_duplicate_keeps_store:
  "users_by_email e D \<noteq> [] \<Longrightarrow> snd (signup L E name (Some e) password income dob address D) = D"
  by (auto simp: signup_def or_null_def split: option.splits if_splits)

lemma signup_with_file_duplicate_keeps_store:
  "users_by_email e D \<noteq> [] \<Longrightarrow>
   snd (signup_with_file L E name (Some e) password income dob address file D) = D"
  by (auto simp: signup_with_file_def or_null_def split: option.splits if_splits)

text \<open>
  Claim C7, as the code has it.  When the email of a registration is already in the
  users table, both signup routes leave the store as it is, whatever the other fields
  are.  When name, email and password are all present and the lookup goes through, the
  answer is 400 \<open>Email already registered\<close>.
\<close>

theorem signup_duplicate_email:
  "users_by_email e D \<noteq> [] \<longrightarrow>
     (n \<noteq> [] \<and> e \<noteq> [] \<and> p \<noteq> [] \<and> \<not> query_fails E 0 \<longrightarrow>
        signup L E (Some n) (Some e) (Some p) income dob address D =
          ((400, Message False ''Email already registered''), D) \<and>
        signup_with_file L E (Some n) (Some e) (Some p) income dob address file D =
          ((400, Message False ''Email already registered''), D)) \<and>
     snd (signup L E name (Some e) password income dob address D) = D \<and>
     snd (signup_with_file L E name (Some e) password income dob address file D) = D"
  by (simp add: signup_duplicate_keeps_store signup_with_file_duplicate_keeps_store)
     (simp add: signup_def signup_with_file_def or_null_Some)

lemma example_alice_email: "users_by_email ''alice@example.com'' example_db = [alice]"
  by (simp add: users_by_email_def example_defs)

text \<open>
  The theorem at work on a second registration under Alice's email.
\<close>

theorem signup_duplicate_email_witness:
  "users_by_email ''alice@example.com'' example_db \<noteq> [] \<and> \<not> query_fails example_env 0 \<and>
   signup example_lib example_env (Some ''Mallory'') (Some ''alice@example.com'') (Some ''pw'')
     (JStr ''500'') None None example_db =
     ((400, Message False ''Email already registered''), example_db)"
proof -
  have h: "users_by_email ''alice@example.com'' example_db \<noteq> []"
    by (simp add: example_alice_email)
  have q: "\<not> query_fails example_env 0" by (rule example_no_failure)
  from signup_duplicate_email
    [of "''alice@example.com''" example_db "''Mallory''" "''pw''" example_env example_lib
        "JStr ''500''" None None] h q
  have "signup example_lib example_env (Some ''Mallory'') (Some ''alice@example.com'')
      (Some ''pw'') (JStr ''500'') None None example_db =
     ((400, Message False ''Email already registered''), example_db)"
    by simp
  with h q show ?thesis by simp
qed

text \<open>
  Claim C7 as it is written fails: the check for required fields comes first, so a
  second registration under Alice's email that has no password is answered
  \<open>Missing required fields\<close>, not \<open>Email already registered\<close>.
\<close>

theorem signup_duplicate_email_counterexample:
  "users_by_email ''alice@example.com'' example_db = [alice] \<and>
   signup example_lib example_env (Some ''Mallory'') (Some ''alice@example.com'') None
     (JStr ''500'') None None example_db =
     ((400, Message False ''Missing required fields''), example_db)"
  by (simp add: example_alice_email) (simp add: signup_def or_null_def)

section \<open>Changing the password\<close>

lemma users_by_id_update_password:
  "users_by_id i (update_password h i D) = map (\<lambda>u. u\<lparr>u_password := h\<rparr>) (users_by_id i D)"
  by (simp add: users_by_id_def update_password_def filter_map o_def cong: filter_cong)

lemma users_by_email_update_password:
  "users_by_email e (update_password h i D) =
     map (\<lambda>u. if u_id u = i then u\<lparr>u_password := h\<rparr> else u) (users_by_email e D)"
  by (simp add: users_by_email_def update_password_def filter_map o_def if_distrib
      cong: if_cong)

lemma users_by_id_hd: "users_by_id i D = row # rest \<Longrightarrow> u_id row = i"
proof -
  assume "users_by_id i D = row # rest"
  then have "row \<in> set (filter (\<lambda>u. u_id u = i) (users D))"
    by (simp add: users_by_id_def)
  then show "u_id row = i" by simp
qed

lemma signin_first_row:
  assumes "e \<noteq> []" and "p \<noteq> []" and "\<not> query_fails E 0"
    and "users_by_email e D = user # rest"
  shows "signin L E (Some e) (Some p) D =
     (if bcrypt_compare L p (u_password user)
      then ((200, LoginSuccessful
               \<lparr>s_id = u_id user, s_name = u_name user, s_email = u_email user,
                s_monthly_income = u_monthly_income user, s_balance = u_balance user,
                s_nid_picture = u_nid_picture user\<rparr>
               (jwt_sign L (now E) \<lparr>d_id = u_id user, d_email = u_email user\<rparr>)), D)
      else ((401, Message False ''Invalid email or password''), D))"
  using assms by (simp add: signin_def or_null_def Let_def)

text \<open>
  Claim C8, as the code has it.  Both passwords are present and the lookup of the
  stored hash goes through.  If the old password does not match the stored hash, the
  answer is 401 \<open>Incorrect old password\<close> and the store is unchanged.  If it matches
  (and the update goes through), the answer is 200 and the stored hash of the user is
  the hash of the new password.  A later signin under the user's email then succeeds
  with the new password when the library accepts a password against its own hash, and
  is refused with the old password when the old password does not match the new hash.
\<close>

theorem change_password_then_signin:
  "old \<noteq> [] \<and> new \<noteq> [] \<and> \<not> query_fails E 0 \<and> users_by_id (r_id ru) D = row # rest \<longrightarrow>
     (\<not> bcrypt_compare L old (u_password row) \<longrightarrow>
        change_password L E ru (Some old) (Some new) D =
          ((401, Message False ''Incorrect old password''), D)) \<and>
     (bcrypt_compare L old (u_password row) \<and> \<not> query_fails E 1 \<longrightarrow>
        change_password L E ru (Some old) (Some new) D =
          ((200, Message True ''Password changed successfully''),
           update_password (bcrypt_hash L (salt E) new) (r_id ru) D) \<and>
        map u_password
            (users_by_id (r_id ru) (update_password (bcrypt_hash L (salt E) new) (r_id ru) D)) =
          map (\<lambda>u. bcrypt_hash L (salt E) new) (row # rest) \<and>
        (u_email row \<noteq> [] \<and> users_by_email (u_email row) D = row # others \<and>
         \<not> query_fails E' 0 \<longrightarrow>
           (bcrypt_compare L new (bcrypt_hash L (salt E) new) \<longrightarrow>
              fst (fst (signin L E' (Some (u_email row)) (Some new)
                     (update_password (bcrypt_hash L (salt E) new) (r_id ru) D))) = 200) \<and>
           (\<not> bcrypt_compare L old (bcrypt_hash L (salt E) new) \<longrightarrow>
              fst (signin L E' (Some (u_email row)) (Some old)
                     (update_password (bcrypt_hash L (salt E) new) (r_id ru) D)) =
                (401, Message False ''Invalid email or password''))))"
proof (intro impI conjI; (elim conjE)?)
  assume a: "old \<noteq> []" "new \<noteq> []" "\<not> query_fails E 0" "users_by_id (r_id ru) D = row # rest"
  { assume "\<not> bcrypt_compare L old (u_password row)"
    with a show "change_password L E ru (Some old) (Some new) D =
          ((401, Message False ''Incorrect old password''), D)"
      by (simp add: change_password_def or_null_def) }
  { assume "bcrypt_compare L old (u_password row)" "\<not> query_fails E 1"
    with a show "change_password L E ru (Some old) (Some new) D =
          ((200, Message True ''Password changed successfully''),
           update_password (bcrypt_hash L (salt E) new) (r_id ru) D)"
      by (simp add: change_password_def or_null_def Let_def) }
  { from a show "map u_password
            (users_by_id (r_id ru) (update_password (bcrypt_hash L (salt E) new) (r_id ru) D)) =
          map (\<lambda>u. bcrypt_hash L (salt E) new) (row # rest)"
      by (simp add: users_by_id_update_password) }
  { assume e: "u_email row \<noteq> []" "users_by_email (u_email row) D = row # others"
      "\<not> query_fails E' 0"
    let ?h = "bcrypt_hash L (salt E) new"
    from a have "u_id row = r_id ru" by (simp add: users_by_id_hd)
    with e have r: "users_by_email (u_email row) (update_password ?h (r_id ru) D) =
        row\<lparr>u_password := ?h\<rparr> #
        map (\<lambda>u. if u_id u = r_id ru then u\<lparr>u_password := ?h\<rparr> else u) others"
      by (simp add: users_by_email_update_password)
    { assume "bcrypt_compare L new ?h"
      with a e show "fst (fst (signin L E' (Some (u_email row)) (Some new)
                     (update_password ?h (r_id ru) D))) = 200"
        by (simp add: signin_first_row [OF _ _ _ r]) }
    { assume "\<not> bcrypt_compare L old ?h"
      with a e show "fst (signin L E' (Some (u_email row)) (Some old)
                     (update_password ?h (r_id ru) D)) =
                (401, Message False ''Invalid email or password'')"
        by (simp add: signin_first_row [OF _ _ _ r]) } }
qed


lemma example_compare:
  "bcrypt_compare example_lib ''secret'' (u_password alice)"
  "\<not> bcrypt_compare example_lib ''wrong'' (u_password alice)"
  "bcrypt_hash example_lib (salt example_env) ''hunter3'' = ''s1$hunter3''"
  "bcrypt_hash example_lib (salt example_env) ''secret'' = ''s1$secret''"
  "bcrypt_compare example_lib ''hunter3'' ''s1$hunter3''"
  "\<not> bcrypt_compare example_lib ''secret'' ''s1$hunter3''"
  "bcrypt_compare example_lib ''secret'' ''s1$secret''"
  by (simp_all add: example_lib_def example_env_def alice_def)

lemma example_update_password:
  "update_password h (r_id (projection alice)) example_db =
     example_db\<lparr>users := [alice\<lparr>u_password := h\<rparr>, bob]\<rparr>"
  by (simp add: update_password_def projection_def example_defs)

text \<open>
  The theorem at work on Alice: a wrong old password, then a change from \<open>secret\<close> to
  \<open>hunter3\<close>, after which \<open>hunter3\<close> signs in and \<open>secret\<close> does not.
\<close>

theorem change_password_then_signin_witness:
  "''secret'' \<noteq> [] \<and> ''hunter3'' \<noteq> [] \<and> ''wrong'' \<noteq> [] \<and> \<not> query_fails example_env 0 \<and>
   \<not> query_fails example_env 1 \<and>
   users_by_id (r_id (projection alice)) example_db = [alice] \<and>
   users_by_email (u_email alice) example_db = [alice] \<and> u_email alice \<noteq> [] \<and>
   \<not> bcrypt_compare example_lib ''wrong'' (u_password alice) \<and>
   change_password example_lib example_env (projection alice) (Some ''wrong'') (Some ''hunter3'')
     example_db = ((401, Message False ''Incorrect old password''), example_db) \<and>
   bcrypt_compare example_lib ''secret'' (u_password alice) \<and>
   change_password example_lib example_env (projection alice) (Some ''secret'')
     (Some ''hunter3'') example_db =
     ((200, Message True ''Password changed successfully''),
      example_db\<lparr>users := [alice\<lparr>u_password := ''s1$hunter3''\<rparr>, bob]\<rparr>) \<and>
   bcrypt_compare example_lib ''hunter3'' ''s1$hunter3'' \<and>
   fst (fst (signin example_lib example_env (Some (u_email alice)) (Some ''hunter3'')
     (example_db\<lparr>users := [alice\<lparr>u_password := ''s1$hunter3''\<rparr>, bob]\<rparr>))) = 200 \<and>
   \<not> bcrypt_compare example_lib ''secret'' ''s1$hunter3'' \<and>
   fst (signin example_lib example_env (Some (u_email alice)) (Some ''secret'')
     (example_db\<lparr>users := [alice\<lparr>u_password := ''s1$hunter3''\<rparr>, bob]\<rparr>)) =
     (401, Message False ''Invalid email or password'')"
proof -
  have h: "''secret'' \<noteq> []" "''hunter3'' \<noteq> []" "''wrong'' \<noteq> []"
    "\<not> query_fails example_env 0" "\<not> query_fails example_env 1"
    "users_by_id (r_id (projection alice)) example_db = alice # []"
    "users_by_email (u_email alice) example_db = alice # []" "u_email alice \<noteq> []"
    by (simp_all add: example_no_failure example_alice_row)
       (simp_all add: users_by_email_def example_defs)
  note c = example_compare
  from change_password_then_signin
    [of "''wrong''" "''hunter3''" example_env "projection alice" example_db alice "[]"
        example_lib] h c
  have 1: "change_password example_lib example_env (projection alice) (Some ''wrong'')
      (Some ''hunter3'') example_db = ((401, Message False ''Incorrect old password''), example_db)"
    by blast
  from change_password_then_signin
    [of "''secret''" "''hunter3''" example_env "projection alice" example_db alice "[]"
        example_lib "[]" example_env] h c
  have 2: "change_password example_lib example_env (projection alice) (Some ''secret'')
      (Some ''hunter3'') example_db =
        ((200, Message True ''Password changed successfully''),
         update_password ''s1$hunter3'' (r_id (projection alice)) example_db)"
    "fst (fst (signin example_lib example_env (Some (u_email alice)) (Some ''hunter3'')
       (update_password ''s1$hunter3'' (r_id (projection alice)) example_db))) = 200"
    "fst (signin example_lib example_env (Some (u_email alice)) (Some ''secret'')
       (update_password ''s1$hunter3'' (r_id (projection alice)) example_db)) =
       (401, Message False ''Invalid email or password'')"
    by simp_all
  from 1 2 h c show ?thesis by (simp add: example_update_password)
qed

text \<open>
  Claim C8 as it is written fails when the new password is the old one: the route does
  not compare the two, the change is accepted, the stored hash changes (new salt), and
  the old password still signs in.
\<close>

theorem change_password_same_password_counterexample:
  "bcrypt_compare example_lib ''secret'' (u_password alice) \<and>
   change_password example_lib example_env (projection alice) (Some ''secret'')
     (Some ''secret'') example_db =
     ((200, Message True ''Password changed successfully''),
      example_db\<lparr>users := [alice\<lparr>u_password := ''s1$secret''\<rparr>, bob]\<rparr>) \<and>
   u_password alice \<noteq> ''s1$secret'' \<and>
   fst (fst (signin example_lib example_env (Some ''alice@example.com'') (Some ''secret'')
     (example_db\<lparr>users := [alice\<lparr>u_password := ''s1$secret''\<rparr>, bob]\<rparr>))) = 200"
proof -
  have 1: "change_password example_lib example_env (projection alice) (Some ''secret'')
     (Some ''secret'') example_db =
     ((200, Message True ''Password changed successfully''),
      example_db\<lparr>users := [alice\<lparr>u_password := ''s1$secret''\<rparr>, bob]\<rparr>)"
    by (simp add: change_password_def or_null_def example_no_failure example_alice_row
        example_compare example_update_password Let_def)
  have "users_by_email ''alice@example.com''
      (example_db\<lparr>users := [alice\<lparr>u_password := ''s1$secret''\<rparr>, bob]\<rparr>) =
      [alice\<lparr>u_password := ''s1$secret''\<rparr>]"
    by (simp add: users_by_email_def example_defs)
  then have 2: "fst (fst (signin example_lib example_env (Some ''alice@example.com'')
      (Some ''secret'') (example_db\<lparr>users := [alice\<lparr>u_password := ''s1$secret''\<rparr>, bob]\<rparr>))) =
      200"
    by (simp add: signin_def or_null_def example_no_failure example_compare Let_def)
  have 3: "u_password alice \<noteq> ''s1$secret''" by (simp add: alice_def)
  from 1 2 3 show ?thesis by (simp add: example_compare)
qed

section \<open>The sign of the balance\<close>

lemma jsadd_nonneg: "nonneg a \<Longrightarrow> nonneg b \<Longrightarrow> nonneg (jsadd a b)"
  by (cases a; cases b) (simp_all add: nonneg_def)

lemma balances_nonneg_insert_user:
  assumes "balances_nonneg D" and "insert_user t n e h i d a nid D = Some D'"
  shows "balances_nonneg D'"
  using assms
  by (auto simp: insert_user_def balances_nonneg_def balance_number_def nonneg_def
      split: if_splits)

lemma balances_nonneg_insert_loan:
  assumes "balances_nonneg D" and "insert_loan t i a st D = Some D'"
  shows "balances_nonneg D'"
  using assms by (auto simp: insert_loan_def balances_nonneg_def split: if_splits)

lemma balances_nonneg_update_password:
  "balances_nonneg D \<Longrightarrow> balances_nonneg (update_password h i D)"
  by (auto simp: update_password_def balances_nonneg_def list_all_iff balance_number_def)

lemma balances_nonneg_update_balance:
  "balances_nonneg D \<Longrightarrow> nonneg b \<Longrightarrow> balances_nonneg (update_balance b i D)"
  by (auto simp: update_balance_def balances_nonneg_def list_all_iff balance_number_def)

lemma balances_nonneg_signup:
  "balances_nonneg D \<Longrightarrow> balances_nonneg (snd (signup L E n e p i d a D))"
  by (auto simp: signup_def Let_def dest: balances_nonneg_insert_user
      split: option.splits if_splits)

lemma balances_nonneg_signup_with_file:
  "balances_nonneg D \<Longrightarrow> balances_nonneg (snd (signup_with_file L E n e p i d a f D))"
  by (auto simp: signup_with_file_def Let_def dest: balances_nonneg_insert_user
      split: option.splits if_splits)

lemma balances_nonneg_signin:
  "balances_nonneg D \<Longrightarrow> balances_nonneg (snd (signin L E e p D))"
  by (auto simp: signin_def Let_def split: option.splits if_splits list.splits)

lemma balances_nonneg_change_password:
  "balances_nonneg D \<Longrightarrow> balances_nonneg (snd (change_password L E u old new D))"
  by (auto simp: change_password_def Let_def balances_nonneg_update_password
      split: option.splits if_splits list.splits)

lemma balances_nonneg_row:
  assumes "balances_nonneg D" and "users_by_id i D = user # rest"
  shows "nonneg (balance_number user)"
proof -
  from assms(2) have "user \<in> set (filter (\<lambda>u. u_id u = i) (users D))"
    by (simp add: users_by_id_def)
  then have "user \<in> set (users D)" by simp
  with assms(1) show ?thesis by (simp add: balances_nonneg_def list_all_iff)
qed

lemma balances_nonneg_take_loan:
  assumes "balances_nonneg D" and "nonneg (parseFloat amount)"
  shows "balances_nonneg (snd (take_loan E u amount D))"
proof (cases "users_by_id (r_id u) D")
  case Nil
  with assms show ?thesis by (simp add: take_loan_def)
next
  case (Cons user rest)
  from assms(1) Cons have "nonneg (balance_number user)" by (rule balances_nonneg_row)
  with assms(2) have n: "nonneg (jsadd (balance_number user) (parseFloat amount))"
    by (simp add: jsadd_nonneg)
  from Cons have i: "insert_loan (now E) (r_id u) (parseFloat amount) ''active'' D \<noteq> None"
    by (simp add: insert_loan_Some)
  then obtain D1 where D1: "insert_loan (now E) (r_id u) (parseFloat amount) ''active'' D = Some D1"
    by blast
  with assms(1) have "balances_nonneg D1" by (rule balances_nonneg_insert_loan)
  with n have "balances_nonneg
      (update_balance (jsadd (balance_number user) (parseFloat amount)) (r_id u) D1)"
    by (simp add: balances_nonneg_update_balance)
  with assms(1) \<open>balances_nonneg D1\<close> Cons D1 show ?thesis
    by (simp add: take_loan_def Let_def)
qed

lemma balances_nonneg_protected:
  assumes "balances_nonneg D" and "\<And>E' u. balances_nonneg (snd (handler E' u D))"
  shows "balances_nonneg (snd (protected L E a handler D))"
  using assms by (simp add: protected_def split: sum.splits)

lemma balances_nonneg_handle:
  assumes "balances_nonneg D" and "amount_nonneg (E, r)"
  shows "balances_nonneg (snd (handle L E r D))"
proof (cases r)
  case (PostTakeLoan a amount)
  with assms show ?thesis
    by (simp add: amount_nonneg_def balances_nonneg_protected balances_nonneg_take_loan)
next
  case (PostChangePassword a old new)
  with assms show ?thesis
    by (simp add: balances_nonneg_protected balances_nonneg_change_password)
qed (use assms in \<open>simp_all add: balances_nonneg_signup balances_nonneg_signup_with_file
    balances_nonneg_signin balances_nonneg_protected get_user_def loan_history_def
    get_cards_def get_employees_def\<close>)

lemma balances_nonneg_run:
  "balances_nonneg D \<Longrightarrow> list_all amount_nonneg reqs \<Longrightarrow> balances_nonneg (run L reqs D)"
proof (induction reqs arbitrary: D)
  case Nil
  then show ?case by simp
next
  case (Cons er reqs)
  obtain E r where er: "er = (E, r)" by (cases er)
  with Cons.prems have "balances_nonneg (snd (handle L E r D))"
    by (simp add: balances_nonneg_handle)
  with Cons er show ?case by simp
qed

lemma balances_nonneg_initDb: "balances_nonneg initDb"
  by (simp add: balances_nonneg_def initDb_def)

lemma kept_balances_refl: "kept_balances D D"
  by (simp add: kept_balances_def)

lemma kept_balances_insert_user:
  "insert_user t n e h i d a nid D = Some D' \<Longrightarrow> kept_balances D D'"
  by (auto simp: insert_user_def kept_balances_def split: if_splits)

lemma kept_balances_update_password: "kept_balances D (update_password h i D)"
  by (simp add: update_password_def kept_balances_def o_def if_distrib cong: if_cong)

lemma kept_balances_signup: "kept_balances D (snd (signup L E n e p i d a D))"
  by (auto simp: signup_def Let_def kept_balances_refl dest: kept_balances_insert_user
      split: option.splits if_splits)

lemma kept_balances_signup_with_file:
  "kept_balances D (snd (signup_with_file L E n e p i d a f D))"
  by (auto simp: signup_with_file_def Let_def kept_balances_refl dest: kept_balances_insert_user
      split: option.splits if_splits)

lemma kept_balances_signin: "kept_balances D (snd (signin L E e p D))"
  by (auto simp: signin_def Let_def kept_balances_refl split: option.splits if_splits list.splits)

lemma kept_balances_change_password:
  "kept_balances D (snd (change_password L E u old new D))"
  by (auto simp: change_password_def Let_def kept_balances_refl kept_balances_update_password
      split: option.splits if_splits list.splits)

lemma kept_balances_protected:
  assumes "\<And>E' u. kept_balances D (snd (handler E' u D))"
  shows "kept_balances D (snd (protected L E a handler D))"
  using assms by (simp add: protected_def kept_balances_refl split: sum.splits)

lemma kept_balances_handle:
  assumes "\<not> is_take_loan r"
  shows "kept_balances D (snd (handle L E r D))"
proof (cases r)
  case (PostTakeLoan a amount)
  with assms show ?thesis by (simp add: is_take_loan_def)
next
  case (PostChangePassword a old new)
  then show ?thesis by (simp add: kept_balances_protected kept_balances_change_password)
qed (simp_all add: kept_balances_signup kept_balances_signup_with_file kept_balances_signin
    kept_balances_protected kept_balances_refl get_user_def loan_history_def get_cards_def
    get_employees_def)

text \<open>
  Claim C4, as the code has it.  In every store reached from the initial one by a
  sequence of requests whose loan amounts all parse to non-negative numbers, every
  balance is non-negative.  Every request other than a loan request leaves the balance
  of each row that was there before as it was.
\<close>

theorem balances_nonneg_reachable:
  "(list_all amount_nonneg reqs \<longrightarrow> balances_nonneg (run L reqs initDb)) \<and>
   (\<not> is_take_loan r \<longrightarrow> kept_balances D (snd (handle L E r D)))"
  by (simp add: balances_nonneg_run balances_nonneg_initDb kept_balances_handle)

lemma example_signup:
  "handle example_lib example_env
     (PostSignup (Some ''Alice'') (Some ''alice@example.com'') (Some ''secret'')
        (JNum (Fin 10000)) None None) initDb =
   ((201, Message True ''Account created successfully''),
    initDb\<lparr>users := [alice\<lparr>u_password := ''s1$secret'', u_created_at := 7\<rparr>],
      users_id_seq := 2\<rparr>)"
  by (simp add: signup_def or_null_def example_no_failure users_by_email_def initDb_def
      numeric_param_def date_param_def insert_user_def Let_def example_lib_def
      example_env_def alice_def)

lemma example_take_loan_after_signup:
  assumes "truthy amount" and "\<not> jsgt (parseFloat amount) (Fin 30000)"
  shows "map u_balance (users (snd (handle example_lib example_env
           (PostTakeLoan (Some ''Bearer a.b.c'') amount)
           (initDb\<lparr>users := [alice\<lparr>u_password := ''s1$secret'', u_created_at := 7\<rparr>],
              users_id_seq := 2\<rparr>)))) =
         [Some (jsadd (Fin 50000) (parseFloat amount))]"
proof -
  let ?a = "alice\<lparr>u_password := ''s1$secret'', u_created_at := 7\<rparr>"
  let ?D = "initDb\<lparr>users := [?a], users_id_seq := 2\<rparr>"
  let ?i = "r_id (projection ?a)"
  have u: "users_by_id ?i ?D = [?a]"
    by (simp add: users_by_id_def alice_def projection_def)
  have "users_by_id (d_id \<lparr>d_id = 1, d_email = ''alice@example.com''\<rparr>) ?D = [?a]"
    by (simp add: users_by_id_def alice_def)
  then have g: "authMiddleware example_lib example_env (Some ''Bearer a.b.c'') ?D =
      Inr (projection ?a)"
    by (simp add: authMiddleware_def strip_bearer_example example_verify example_no_failure)
  have m: "maxLoan ?a = Fin 30000" "balance_number ?a = Fin 50000"
    by (simp_all add: maxLoan_def balance_number_def alice_def)
  have q: "\<not> query_fails (after_auth example_env) k" for k
    by (simp add: after_auth_def example_env_def)
  from assms have "take_loan (after_auth example_env) (projection ?a) amount ?D =
      ((201, LoanApproved (jsadd (Fin 50000) (parseFloat amount))),
       update_balance (jsadd (Fin 50000) (parseFloat amount)) ?i
         (?D\<lparr>loans := loans ?D @
             [\<lparr>l_id = loans_id_seq ?D, l_user_id = ?i, l_amount = parseFloat amount,
               l_status = ''active'', l_taken_at = now (after_auth example_env),
               l_paid_at = None\<rparr>],
           loans_id_seq := Suc (loans_id_seq ?D)\<rparr>))"
    unfolding take_loan_def by (simp only: q u m insert_loan_Some [OF u] Let_def) (simp add: m)
  then have "snd (handle example_lib example_env
           (PostTakeLoan (Some ''Bearer a.b.c'') amount) ?D) =
       update_balance (jsadd (Fin 50000) (parseFloat amount)) ?i
         (?D\<lparr>loans := loans ?D @
             [\<lparr>l_id = loans_id_seq ?D, l_user_id = ?i, l_amount = parseFloat amount,
               l_status = ''active'', l_taken_at = now (after_auth example_env),
               l_paid_at = None\<rparr>],
           loans_id_seq := Suc (loans_id_seq ?D)\<rparr>)"
    by (simp add: protected_def g)
  then show ?thesis
    by (simp add: update_balance_def alice_def projection_def)
qed

lemma example_run:
  assumes "truthy amount" and "\<not> jsgt (parseFloat amount) (Fin 30000)"
  shows "map u_balance (users (run example_lib (example_requests amount) initDb)) =
     [Some (jsadd (Fin 50000) (parseFloat amount))]"
  using example_take_loan_after_signup [OF assms]
  by (simp add: example_requests_def example_signup del: handle.simps)

lemma parse_minus_60000: "parseFloat_string ''-60000'' = Fin (- 60000)"
  by (simp add: parse_defs)

text \<open>
  Claim C4 as it is written fails: the loan credit adds whatever the amount parses to.
  Alice registers and then requests a loan of \<open>-60000\<close>, which is below her ceiling
  and is approved; her balance in the store reached is \<open>-10000\<close>.
\<close>

theorem balance_negative_counterexample:
  "map u_balance (users (run example_lib (example_requests (JStr ''-60000'')) initDb)) =
     [Some (Fin (- 10000))] \<and>
   \<not> balances_nonneg (run example_lib (example_requests (JStr ''-60000'')) initDb)"
proof -
  have 1: "map u_balance (users (run example_lib (example_requests (JStr ''-60000'')) initDb)) =
     [Some (Fin (- 10000))]"
    using example_run [of "JStr ''-60000''"] by (simp add: parse_minus_60000)
  then have "map balance_number
      (users (run example_lib (example_requests (JStr ''-60000'')) initDb)) = [Fin (- 10000)]"
    by (auto simp: balance_number_def)
  then have "\<not> list_all nonneg (map balance_number
      (users (run example_lib (example_requests (JStr ''-60000'')) initDb)))"
    by (simp add: nonneg_def)
  then have "\<not> balances_nonneg (run example_lib (example_requests (JStr ''-60000'')) initDb)"
    by (simp add: balances_nonneg_def list_all_iff)
  with 1 show ?thesis by simp
qed

text \<open>
  The theorem at work: Alice registers with income 10000 and borrows 30000; a signin
  changes no balance.
\<close>

theorem balances_nonneg_reachable_witness:
  "list_all amount_nonneg (example_requests (JStr ''30000'')) \<and>
   balances_nonneg (run example_lib (example_requests (JStr ''30000'')) initDb) \<and>
   map u_balance (users (run example_lib (example_requests (JStr ''30000'')) initDb)) =
     [Some (Fin 80000)] \<and>
   \<not> is_take_loan (PostSignin (Some ''alice@example.com'') (Some ''secret'')) \<and>
   kept_balances example_db
     (snd (handle example_lib example_env
        (PostSignin (Some ''alice@example.com'') (Some ''secret'')) example_db))"
proof -
  have h: "list_all amount_nonneg (example_requests (JStr ''30000''))"
    by (simp add: example_requests_def amount_nonneg_def parse_30000 nonneg_def)
  have t: "\<not> is_take_loan (PostSignin (Some ''alice@example.com'') (Some ''secret''))"
    by (simp add: is_take_loan_def)
  from balances_nonneg_reachable
    [of "example_requests (JStr ''30000'')" example_lib
        "PostSignin (Some ''alice@example.com'') (Some ''secret'')" example_db example_env] h t
  have "balances_nonneg (run example_lib (example_requests (JStr ''30000'')) initDb)"
    "kept_balances example_db
     (snd (handle example_lib example_env
        (PostSignin (Some ''alice@example.com'') (Some ''secret'')) example_db))"
    by blast+
  moreover have "map u_balance
      (users (run example_lib (example_requests (JStr ''30000'')) initDb)) = [Some (Fin 80000)]"
    using example_run [of "JStr ''30000''"] by (simp add: parse_30000)
  ultimately show ?thesis using h t by simp
qed

end
